theory Spec2Isabelle
  imports Complex_Main
begin

section \<open>Index codec (readGzipJson, writeGzipJson)\<close>

text \<open>
  The codec of \<^verbatim>\<open>src/index.ts\<close> frames a JSON value as one line of text:
  \<^verbatim>\<open>JSON.stringify\<close>, \<^verbatim>\<open>gzip\<close>, base64, the data-URI marker and, when a variable name
  is given, an assignment statement around it. JSON, zlib and \<^verbatim>\<open>Buffer\<close> belong to the
  runtime, not to this repository, so they are the fields of a record the two functions
  take; the framing (the template strings and the two \<^verbatim>\<open>String.replace\<close> calls) is
  translated from the source.
\<close>

datatype error = IOError | FormatError

record ('v, 'b) codec =
  stringify :: "'v \<Rightarrow> string"
  gzip :: "string \<Rightarrow> 'b"
  toBase64 :: "'b \<Rightarrow> string"
  fromBase64 :: "string \<Rightarrow> 'b"
  gunzip :: "'b \<Rightarrow> string option"
  parse :: "string \<Rightarrow> 'v option"

definition bslash :: char where
  "bslash = CHR 0x5C"

definition dquote :: char where
  "dquote = CHR 0x22"

definition data_uri :: string where
  "data_uri = ''data:application/octet-stream;base64,''"

text \<open>The character class of \<^verbatim>\<open>/[.*+?^${}()|[\]\\]/g\<close>: the syntax characters of a
  JavaScript regular expression.\<close>

definition re_syntax :: string where
  "re_syntax = ''.*+?^${}()|[]'' @ [bslash]"

text \<open>\<^verbatim>\<open>jsVariable.replace(/[.*+?^${}()|[\]\\]/g, '\\$&')\<close>: a backslash before every
  syntax character.\<close>

fun escapeRegExp :: "string \<Rightarrow> string" where
  "escapeRegExp [] = []"
| "escapeRegExp (c # cs) =
     (if c \<in> set re_syntax then bslash # c # escapeRegExp cs else c # escapeRegExp cs)"

text \<open>
  How \<^verbatim>\<open>new RegExp\<close> reads the escaped name: a backslash followed by a syntax character
  matches that character, any other character that is not a syntax character matches
  itself. A source outside this fragment (a bare syntax character, a backslash before
  anything else) is not a literal and gives \<open>None\<close>.
\<close>

fun literal_of :: "string \<Rightarrow> string option" where
  "literal_of [] = Some []"
| "literal_of (c # cs) =
     (if c = bslash then
        (case cs of
           [] \<Rightarrow> None
         | d # ds \<Rightarrow> if d \<in> set re_syntax then map_option ((#) d) (literal_of ds) else None)
      else if c \<in> set re_syntax then None
      else map_option ((#) c) (literal_of cs))"

fun strip_prefix :: "string \<Rightarrow> string \<Rightarrow> string option" where
  "strip_prefix [] s = Some s"
| "strip_prefix (p # ps) [] = None"
| "strip_prefix (p # ps) (c # cs) = (if p = c then strip_prefix ps cs else None)"

text \<open>
  The match of \<^verbatim>\<open>^<src> = "([^"]*)";?$\<close> against the whole content, returning group 1.
  The pattern is anchored at both ends and \<^verbatim>\<open>[^"]*\<close> cannot cross a double quote, so the
  group is the run of characters up to the first double quote, which must be followed by
  the end of the content or by one semicolon and the end.
\<close>

definition match_assignment :: "string \<Rightarrow> string \<Rightarrow> string option" where
  "match_assignment src content =
     (case literal_of src of
        None \<Rightarrow> None
      | Some lit \<Rightarrow>
          (case strip_prefix (lit @ '' = '' @ [dquote]) content of
             None \<Rightarrow> None
           | Some rest \<Rightarrow>
               (let payload = takeWhile (\<lambda>c. c \<noteq> dquote) rest;
                    closing = dropWhile (\<lambda>c. c \<noteq> dquote) rest
                in if closing = [dquote] \<or> closing = [dquote, CHR '';'']
                   then Some payload else None)))"

text \<open>\<^verbatim>\<open>content.replace(new RegExp(...), '$1')\<close>: a content that does not match is
  returned as it is.\<close>

definition replace_assignment :: "string \<Rightarrow> string \<Rightarrow> string" where
  "replace_assignment jsVariable content =
     (case match_assignment (escapeRegExp jsVariable) content of
        None \<Rightarrow> content
      | Some payload \<Rightarrow> payload)"

text \<open>\<^verbatim>\<open>content.replace(/^data:application\/octet-stream;base64,/, '')\<close>.\<close>

definition strip_data_uri :: "string \<Rightarrow> string" where
  "strip_data_uri content =
     (case strip_prefix data_uri content of None \<Rightarrow> content | Some rest \<Rightarrow> rest)"

text \<open>
  \<^verbatim>\<open>readGzipJson(file, jsVariable?)\<close>. The first argument is what \<^verbatim>\<open>readFile\<close> gives:
  \<open>None\<close> when the file cannot be read. \<^verbatim>\<open>if (jsVariable)\<close> is false for a missing and
  for an empty name. \<^verbatim>\<open>gunzip\<close> and \<^verbatim>\<open>JSON.parse\<close> throw on bytes or text they do not
  accept; \<^verbatim>\<open>Buffer.from(content, 'base64')\<close> never does.
\<close>

definition readGzipJson :: "('v, 'b) codec \<Rightarrow> string option \<Rightarrow> string option \<Rightarrow> error + 'v" where
  "readGzipJson c file jsVariable =
     (case file of
        None \<Rightarrow> Inl IOError
      | Some content \<Rightarrow>
          (let content1 =
                 (case jsVariable of
                    None \<Rightarrow> content
                  | Some n \<Rightarrow> if n \<noteq> [] then replace_assignment n content else content);
               content2 = strip_data_uri content1;
               buffer = fromBase64 c content2
           in case gunzip c buffer of
                None \<Rightarrow> Inl FormatError
              | Some txt \<Rightarrow>
                  (case parse c txt of
                     None \<Rightarrow> Inl FormatError
                   | Some v \<Rightarrow> Inr v)))"

text \<open>\<^verbatim>\<open>writeGzipJson(file, value, jsVariable?)\<close>: the result is the content handed to
  \<^verbatim>\<open>writeFile\<close>.\<close>

definition writeGzipJson :: "('v, 'b) codec \<Rightarrow> 'v \<Rightarrow> string option \<Rightarrow> string" where
  "writeGzipJson c v jsVariable =
     (let buffer = gzip c (stringify c v);
          content = data_uri @ toBase64 c buffer
      in case jsVariable of
           None \<Rightarrow> content
         | Some n \<Rightarrow> if n \<noteq> [] then n @ '' = '' @ [dquote] @ content @ [dquote] @ '';'' else content)"

text \<open>
  The contract of the runtime's primitives: parsing undoes \<^verbatim>\<open>JSON.stringify\<close> on the
  values of the codec's value type (the JSON-representable ones), \<^verbatim>\<open>gunzip\<close> undoes
  \<^verbatim>\<open>gzip\<close>, decoding undoes base64 encoding, and base64 text holds no double quote
  (its alphabet is the letters, the digits, \<^verbatim>\<open>+\<close>, \<^verbatim>\<open>/\<close> and \<^verbatim>\<open>=\<close>).
\<close>

definition codec_ok :: "('v, 'b) codec \<Rightarrow> bool" where
  "codec_ok c \<longleftrightarrow>
     (\<forall>v. parse c (stringify c v) = Some v) \<and>
     (\<forall>s. gunzip c (gzip c s) = Some s) \<and>
     (\<forall>b. fromBase64 c (toBase64 c b) = b) \<and>
     (\<forall>b. dquote \<notin> set (toBase64 c b))"

text \<open>
  A small codec that meets the contract, on the value type \<open>bool\<close>: the JSON texts
  \<^verbatim>\<open>true\<close> and \<^verbatim>\<open>false\<close>, a compression that keeps the text, and an encoding of every
  byte as two of the letters \<^verbatim>\<open>A\<close> to \<^verbatim>\<open>P\<close>. On the text \<^verbatim>\<open>true\<close> it writes what the
  runtime writes: \<open>gzip_true\<close> is the base64 text of the gzip stream zlib makes of the
  four bytes of \<^verbatim>\<open>true\<close> (bytes \<^verbatim>\<open>1f 8b 08 00 00 00 00 00 00 03 2b 29 2a 4d 05 00 8d 4c fc fd
  04 00 00 00\<close>). The codec stands in for the runtime where a concrete run of the framing
  is evaluated.
\<close>

definition gzip_true :: string where
  "gzip_true = ''H4sIAAAAAAAAAyspKk0FAI1M/P0EAAAA''"

definition stub_encode :: "string \<Rightarrow> string" where
  "stub_encode s =
     concat (map (\<lambda>c. [char_of (65 + (of_char c :: nat) div 16),
                        char_of (65 + (of_char c :: nat) mod 16)]) s)"

fun stub_decode :: "string \<Rightarrow> string" where
  "stub_decode (a # b # rest) =
     char_of (16 * ((of_char a :: nat) - 65) + ((of_char b :: nat) - 65)) # stub_decode rest"
| "stub_decode _ = []"

definition stub_codec :: "(bool, string) codec" where
  "stub_codec =
     \<lparr> stringify = (\<lambda>b. if b then ''true'' else ''false''),
       gzip = (\<lambda>s. s),
       toBase64 = (\<lambda>s. if s = ''true'' then gzip_true else stub_encode s),
       fromBase64 = (\<lambda>s. if s = gzip_true then ''true'' else stub_decode s),
       gunzip = (\<lambda>s. Some s),
       parse = (\<lambda>s. if s = ''true'' then Some True
                     else if s = ''false'' then Some False else None) \<rparr>"


section \<open>Search rows (rebuildSearch and the post-render search job)\<close>

text \<open>
  A row of \<^verbatim>\<open>search.rows\<close>. An optional field that is \<^verbatim>\<open>undefined\<close> (or absent) is
  \<open>None\<close>. \<^verbatim>\<open>url\<close> is a required string; the empty string is the falsy url that
  \<^verbatim>\<open>!row.url\<close> tests for. \<^verbatim>\<open>boost\<close> is a finite JavaScript number, read as a real.
\<close>

record SearchItem =
  url :: string
  kind :: "nat option"
  name :: "string option"
  classes :: "string option"
  parent :: "string option"
  comment :: "string option"
  document :: "string option"
  boost :: "real option"

text \<open>
  What the code reads of a TypeDoc reflection. \<open>variant\<close> is the class the
  \<^verbatim>\<open>instanceof\<close> tests see; a comment is the texts of its summary parts and of the content
  parts of each block tag; \<open>refl_parent\<close> is the parent reflection, a project or a
  container with its \<^verbatim>\<open>getFullName()\<close>; \<open>signatures\<close> holds the comment of every
  signature, \<open>getSignature\<close> and \<open>setSignature\<close> the comment of the accessor's
  signature when there is one.
\<close>

datatype ReflectionVariant =
  DeclarationReflection | DocumentReflection | ProjectReflection | OtherReflection

datatype ParentReflection = Project | Container string

record Comment =
  summary :: "string list"
  blockTags :: "string list list"

record Reflection =
  variant :: ReflectionVariant
  refl_url :: string
  refl_name :: string
  refl_kind :: nat
  isExternal :: bool
  isDeprecated :: bool
  refl_parent :: "ParentReflection option"
  refl_comment :: "Comment option"
  signatures :: "Comment option list"
  getSignature :: "Comment option"
  setSignature :: "Comment option"
  refl_content :: "string list"
  relevanceBoost :: "real option"

text \<open>
  The host the rebuild runs in: the two options, the theme's class derivation, the
  reflections of the project (\<^verbatim>\<open>Object.values(event.project.reflections)\<close>) and the
  extra indexed fields of \<^verbatim>\<open>indexEvent.searchFields\<close>, by index.
\<close>

record Host =
  searchInComments :: bool
  searchInDocuments :: bool
  getReflectionClasses :: "Reflection \<Rightarrow> string"
  reflections_of :: "Reflection list"
  searchFields :: "nat \<Rightarrow> (string \<times> string) list"

text \<open>
  A document handed to \<^verbatim>\<open>builder.add\<close>, with the boost attribute of the call: the members
  \<^verbatim>\<open>id\<close>, \<^verbatim>\<open>name\<close>, \<^verbatim>\<open>comment\<close> and \<^verbatim>\<open>document\<close> of the object, and in \<open>doc_fields\<close>
  its other members, which come from \<^verbatim>\<open>indexEvent.searchFields\<close>.
\<close>

record IndexDoc =
  doc_id :: nat
  doc_name :: "string option"
  doc_comment :: "string option"
  doc_document :: "string option"
  doc_fields :: "(string \<times> string) list"
  doc_boost :: "real option"

definition newline :: char where
  "newline = CHR 0x0A"

text \<open>\<^verbatim>\<open>Array.prototype.join\<close>.\<close>

fun join :: "string \<Rightarrow> string list \<Rightarrow> string" where
  "join sep [] = []"
| "join sep [x] = x"
| "join sep (x # y # ys) = x @ sep @ join sep (y # ys)"

text \<open>\<^verbatim>\<open>Array.prototype.findIndex\<close>; \<open>None\<close> is the result \<^verbatim>\<open>-1\<close>.\<close>

fun findIndex :: "('a \<Rightarrow> bool) \<Rightarrow> 'a list \<Rightarrow> nat option" where
  "findIndex P [] = None"
| "findIndex P (x # xs) = (if P x then Some 0 else map_option Suc (findIndex P xs))"

text \<open>The reflections both search paths keep (lines 198-205 and 395-402).\<close>

definition search_reflections :: "Host \<Rightarrow> Reflection list" where
  "search_reflections host =
     filter (\<lambda>r. (variant r = DeclarationReflection \<or> variant r = DocumentReflection) \<and>
                 refl_url r \<noteq> [] \<and> refl_name r \<noteq> [] \<and> \<not> isExternal r)
       (reflections_of host)"

text \<open>\<^verbatim>\<open>reflections.findIndex(...)\<close> and \<^verbatim>\<open>reflections[reflectionIndex]\<close>: the index and
  the reflection, or \<open>None\<close>.\<close>

definition find_reflection :: "Reflection list \<Rightarrow> string \<Rightarrow> (nat \<times> Reflection) option" where
  "find_reflection reflections u =
     (case findIndex (\<lambda>r. refl_url r = u) reflections of
        None \<Rightarrow> None
      | Some j \<Rightarrow> Some (j, reflections ! j))"

text \<open>The comments gathered for \<^verbatim>\<open>row.comment\<close> (lines 257-279 and 451-473).\<close>

definition collect_comments :: "Reflection \<Rightarrow> Comment list" where
  "collect_comments r =
     (case refl_comment r of None \<Rightarrow> [] | Some c \<Rightarrow> [c]) @
     (if variant r = DeclarationReflection then
        concat (map (\<lambda>sc. case sc of None \<Rightarrow> [] | Some c \<Rightarrow> [c]) (signatures r)) @
        (case getSignature r of None \<Rightarrow> [] | Some c \<Rightarrow> [c]) @
        (case setSignature r of None \<Rightarrow> [] | Some c \<Rightarrow> [c])
      else [])"

definition comment_text :: "Comment list \<Rightarrow> string" where
  "comment_text comments =
     join [newline] (concat (map (\<lambda>c. summary c @ concat (blockTags c)) comments))"

text \<open>
  The fill of \<^verbatim>\<open>kind\<close>, \<^verbatim>\<open>name\<close>, \<^verbatim>\<open>classes\<close>, \<^verbatim>\<open>parent\<close>, \<^verbatim>\<open>comment\<close> and
  \<^verbatim>\<open>document\<close> from the matched reflection: lines 232-300 of \<^verbatim>\<open>rebuildSearch\<close> and,
  word for word, lines 426-494 of the post-render job. Each \<^verbatim>\<open>if\<close> block of the source is
  one step.
\<close>

definition fill_kind :: "Reflection \<Rightarrow> SearchItem \<Rightarrow> SearchItem" where
  "fill_kind r row = (if kind row = None then row\<lparr>kind := Some (refl_kind r)\<rparr> else row)"

definition fill_name :: "Reflection \<Rightarrow> SearchItem \<Rightarrow> SearchItem" where
  "fill_name r row = (if name row = None then row\<lparr>name := Some (refl_name r)\<rparr> else row)"

definition fill_classes :: "Host \<Rightarrow> Reflection \<Rightarrow> SearchItem \<Rightarrow> SearchItem" where
  "fill_classes host r row =
     (if classes row = None then row\<lparr>classes := Some (getReflectionClasses host r)\<rparr> else row)"

definition fill_parent :: "Reflection \<Rightarrow> SearchItem \<Rightarrow> SearchItem" where
  "fill_parent r row =
     (if parent row = None then
        (case refl_parent r of
           None \<Rightarrow> row
         | Some Project \<Rightarrow> row
         | Some (Container full) \<Rightarrow> row\<lparr>parent := Some full\<rparr>)
      else row)"

definition fill_comment :: "Host \<Rightarrow> Reflection \<Rightarrow> SearchItem \<Rightarrow> SearchItem" where
  "fill_comment host r row =
     (if comment row = None \<and> searchInComments host then
        (let comments = collect_comments r
         in if comments \<noteq> [] then row\<lparr>comment := Some (comment_text comments)\<rparr> else row)
      else row)"

definition fill_document :: "Host \<Rightarrow> Reflection \<Rightarrow> SearchItem \<Rightarrow> SearchItem" where
  "fill_document host r row =
     (if document row = None \<and> searchInDocuments host \<and> variant r = DocumentReflection
      then row\<lparr>document := Some (join [newline] (refl_content r))\<rparr> else row)"

definition fill_fields :: "Host \<Rightarrow> Reflection \<Rightarrow> SearchItem \<Rightarrow> SearchItem" where
  "fill_fields host r row0 =
     (let row1 = fill_kind r row0;
          row2 = fill_name r row1;
          row3 = fill_classes host r row2;
          row4 = fill_parent r row3;
          row5 = fill_comment host r row4;
          row6 = fill_document host r row5
      in row6)"

text \<open>Lines 302-308 of \<^verbatim>\<open>rebuildSearch\<close>: the boost of the legacy path.\<close>

definition fill_legacy :: "Host \<Rightarrow> Reflection \<Rightarrow> SearchItem \<Rightarrow> SearchItem" where
  "fill_legacy host r row =
     (let row6 = fill_fields host r row
      in if boost row6 = None then
           (let b = (case relevanceBoost r of None \<Rightarrow> 1 | Some x \<Rightarrow> x)
            in row6\<lparr>boost := Some (if b \<le> 0 then 1 else b)\<rparr>)
         else row6)"

text \<open>Lines 496-498 of the post-render job: the boost of the current path.\<close>

definition fill_current :: "Host \<Rightarrow> Reflection \<Rightarrow> SearchItem \<Rightarrow> SearchItem" where
  "fill_current host r item =
     (let item6 = fill_fields host r item
      in if boost item6 = None
         then item6\<lparr>boost := Some (case relevanceBoost r of None \<Rightarrow> 1 | Some x \<Rightarrow> x)\<rparr>
         else item6)"

text \<open>\<^verbatim>\<open>delete row.comment; delete row.document; delete row.boost\<close>.\<close>

definition strip_row :: "SearchItem \<Rightarrow> SearchItem" where
  "strip_row row = row\<lparr>comment := None, document := None, boost := None\<rparr>"

subsection \<open>The legacy path: rebuildSearch\<close>

record RebuildOptions =
  formatName :: "(string option \<Rightarrow> Reflection option \<Rightarrow> string option) option"
  formatComment :: "(string option \<Rightarrow> Reflection option \<Rightarrow> string option) option"
  formatDocument :: "(string option \<Rightarrow> Reflection option \<Rightarrow> string option) option"

text \<open>The row after the fill and the three format options (lines 225-321), for a row
  that has a url.\<close>

definition legacy_item :: "Host \<Rightarrow> RebuildOptions \<Rightarrow> Reflection list \<Rightarrow> SearchItem \<Rightarrow> SearchItem" where
  "legacy_item host opts reflections row =
     (let found = find_reflection reflections (url row);
          reflection = map_option snd found;
          row1 = (case reflection of None \<Rightarrow> row | Some r \<Rightarrow> fill_legacy host r row);
          row2 = (case formatName opts of
                    None \<Rightarrow> row1 | Some f \<Rightarrow> row1\<lparr>name := f (name row1) reflection\<rparr>);
          row3 = (case formatComment opts of
                    None \<Rightarrow> row2 | Some f \<Rightarrow> row2\<lparr>comment := f (comment row2) reflection\<rparr>);
          row4 = (case formatDocument opts of
                    None \<Rightarrow> row3 | Some f \<Rightarrow> row3\<lparr>document := f (document row3) reflection\<rparr>)
      in row4)"

text \<open>
  A member of \<^verbatim>\<open>{ name: ..., comment: ..., document: ..., ...extra, id }\<close>: the spread
  comes after the three members of the row, so a member of the same name in the extra
  fields replaces the row's value.
\<close>

definition spread_over :: "(string \<times> string) list \<Rightarrow> string \<Rightarrow> string option \<Rightarrow> string option" where
  "spread_over extra key v = (case map_of extra key of None \<Rightarrow> v | Some x \<Rightarrow> Some x)"

text \<open>
  The document of \<^verbatim>\<open>builder.add\<close> for the row at position \<open>i\<close> (lines 323-330 and
  506-513). The extra fields are those of the matched reflection's index, none without a
  match. \<^verbatim>\<open>id\<close> is written last, after the spread, so no extra field replaces it.
\<close>

definition index_doc :: "Host \<Rightarrow> Reflection list \<Rightarrow> nat \<Rightarrow> string \<Rightarrow> SearchItem \<Rightarrow> real option \<Rightarrow> IndexDoc" where
  "index_doc host reflections i u row b =
     (let extra = (case find_reflection reflections u of
                     None \<Rightarrow> [] | Some (j, r) \<Rightarrow> searchFields host j)
      in \<lparr> doc_id = i,
           doc_name = spread_over extra ''name'' (name row),
           doc_comment = spread_over extra ''comment'' (comment row),
           doc_document = spread_over extra ''document'' (document row),
           doc_fields =
             filter (\<lambda>(k, v). k \<notin> set [''name'', ''comment'', ''document'', ''id'']) extra,
           doc_boost = b \<rparr>)"

text \<open>One turn of the loop of lines 220-339; the builder is the list of the documents
  added so far.\<close>

definition legacy_row ::
  "Host \<Rightarrow> RebuildOptions \<Rightarrow> Reflection list \<Rightarrow> nat \<Rightarrow> SearchItem \<Rightarrow> IndexDoc list
     \<Rightarrow> SearchItem \<times> IndexDoc list" where
  "legacy_row host opts reflections i row builder =
     (if url row = [] then (row, builder)
      else
        (let row4 = legacy_item host opts reflections row;
             builder' = builder @ [index_doc host reflections i (url row) row4 (boost row4)]
         in (strip_row row4, builder')))"

fun legacy_rows ::
  "Host \<Rightarrow> RebuildOptions \<Rightarrow> Reflection list \<Rightarrow> nat \<Rightarrow> SearchItem list \<Rightarrow> IndexDoc list
     \<Rightarrow> SearchItem list \<times> IndexDoc list" where
  "legacy_rows host opts reflections i [] builder = ([], builder)"
| "legacy_rows host opts reflections i (row # rows) builder =
     (case legacy_row host opts reflections i row builder of
        (row', builder') \<Rightarrow>
          (case legacy_rows host opts reflections (Suc i) rows builder' of
             (rows', builder'') \<Rightarrow> (row' # rows', builder'')))"

text \<open>\<^verbatim>\<open>rebuildSearch(search, app, event, options)\<close>: the rows as they are returned, and the
  documents the index is built from.\<close>

definition rebuildSearch :: "Host \<Rightarrow> RebuildOptions \<Rightarrow> SearchItem list \<Rightarrow> SearchItem list \<times> IndexDoc list" where
  "rebuildSearch host opts rows = legacy_rows host opts (search_reflections host) 0 rows []"

subsection \<open>The current path: the post-render job of getSearchTasks\<close>

text \<open>
  A callback is the change it makes to what it is given: an alter callback maps the row
  list to the row list it leaves, a format callback maps the item (with the matched
  reflection of its context) to the item it leaves. Callbacks run one after the other,
  in the order of registration.
\<close>

type_synonym AlterSearchCallback = "SearchItem list \<Rightarrow> SearchItem list"

type_synonym FormatSearchCallback = "SearchItem \<Rightarrow> Reflection option \<Rightarrow> SearchItem"

text \<open>The item after the fill and the format callbacks (lines 418-503).\<close>

definition current_item :: "Host \<Rightarrow> FormatSearchCallback list \<Rightarrow> Reflection list \<Rightarrow> SearchItem \<Rightarrow> SearchItem" where
  "current_item host formats reflections item =
     (let found = find_reflection reflections (url item);
          reflection = map_option snd found;
          item1 = (case reflection of None \<Rightarrow> item | Some r \<Rightarrow> fill_current host r item)
      in fold (\<lambda>format it. format it reflection) formats item1)"

text \<open>The test of line 505.\<close>

definition indexed :: "SearchItem \<Rightarrow> bool" where
  "indexed item \<longleftrightarrow>
     url item \<noteq> [] \<and> (case boost item of None \<Rightarrow> True | Some b \<Rightarrow> 0 < b)"

text \<open>One turn of the loop of lines 417-524. The reflection was looked up with the url
  the item had before the format callbacks ran.\<close>

definition current_row ::
  "Host \<Rightarrow> FormatSearchCallback list \<Rightarrow> Reflection list \<Rightarrow> nat \<Rightarrow> SearchItem \<Rightarrow> IndexDoc list
     \<Rightarrow> SearchItem \<times> IndexDoc list" where
  "current_row host formats reflections i item builder =
     (let item2 = current_item host formats reflections item;
          builder' =
            (if indexed item2
             then builder @
                    [index_doc host reflections i (url item) item2
                       (Some (case boost item2 of None \<Rightarrow> 1 | Some b \<Rightarrow> b))]
             else builder);
          item3 = item2\<lparr>name := Some (case name item2 of None \<Rightarrow> [] | Some n \<Rightarrow> n)\<rparr>
      in (strip_row item3, builder'))"

fun current_rows ::
  "Host \<Rightarrow> FormatSearchCallback list \<Rightarrow> Reflection list \<Rightarrow> nat \<Rightarrow> SearchItem list \<Rightarrow> IndexDoc list
     \<Rightarrow> SearchItem list \<times> IndexDoc list" where
  "current_rows host formats reflections i [] builder = ([], builder)"
| "current_rows host formats reflections i (item # items) builder =
     (case current_row host formats reflections i item builder of
        (item', builder') \<Rightarrow>
          (case current_rows host formats reflections (Suc i) items builder' of
             (items', builder'') \<Rightarrow> (item' # items', builder'')))"

text \<open>The rows after the alter callbacks (lines 386-388).\<close>

definition altered_rows :: "AlterSearchCallback list \<Rightarrow> SearchItem list \<Rightarrow> SearchItem list" where
  "altered_rows alters rows = fold (\<lambda>alter items. alter items) alters rows"

text \<open>The job from the alter callbacks to the rows it writes back and the documents of
  the index it builds.\<close>

definition searchJob ::
  "Host \<Rightarrow> AlterSearchCallback list \<Rightarrow> FormatSearchCallback list \<Rightarrow> SearchItem list
     \<Rightarrow> SearchItem list \<times> IndexDoc list" where
  "searchJob host alters formats rows =
     current_rows host formats (search_reflections host) 0 (altered_rows alters rows) []"


section \<open>Navigation items (the post-render job of getNavigationTasks)\<close>

text \<open>
  A node of the navigation tree. \<^verbatim>\<open>path\<close> is a string (the empty string where a node has
  none: no kept reflection has an empty url); \<^verbatim>\<open>text\<close>, \<^verbatim>\<open>kind\<close> and \<^verbatim>\<open>class\<close> are
  \<open>None\<close> while \<^verbatim>\<open>undefined\<close>; \<^verbatim>\<open>children\<close> is optional.
\<close>

datatype NavigationItem =
  NavigationItem
    (nav_path: string)
    (nav_text: "string option")
    (nav_kind: "nat option")
    (nav_class: "string option")
    (nav_children: "NavigationItem list option")

text \<open>\<^verbatim>\<open>dummyItem\<close> of lines 696-701: what a format callback is given.\<close>

record DummyItem =
  dummy_path :: string
  dummy_text :: "string option"
  dummy_kind :: "nat option"
  dummy_class :: "string option"

type_synonym AlterNavigationCallback = "NavigationItem list \<Rightarrow> NavigationItem list"

type_synonym FormatNavigationCallback = "DummyItem \<Rightarrow> Reflection option \<Rightarrow> DummyItem"

text \<open>The reflections the navigation job keeps (lines 653-656): of any class.\<close>

definition navigation_reflections :: "Host \<Rightarrow> Reflection list" where
  "navigation_reflections host =
     filter (\<lambda>r. refl_url r \<noteq> [] \<and> refl_name r \<noteq> [] \<and> \<not> isExternal r) (reflections_of host)"

text \<open>Lines 677-684: the class the theme derives, or the empty string for a reflection
  that is neither a declaration nor a document.\<close>

definition theme_class :: "Host \<Rightarrow> Reflection \<Rightarrow> string" where
  "theme_class host r =
     (if variant r = DeclarationReflection \<or> variant r = DocumentReflection
      then getReflectionClasses host r else [])"

text \<open>Lines 686-692.\<close>

definition deprecated_class :: "Reflection \<Rightarrow> string \<Rightarrow> string" where
  "deprecated_class r cls =
     (if isDeprecated r
      then ''deprecated'' @ (if cls \<noteq> [] then '' '' @ cls else cls)
      else cls)"

text \<open>Lines 667-694: the fill of a node from its matched reflection.\<close>

fun fill_navigation :: "Host \<Rightarrow> Reflection \<Rightarrow> NavigationItem \<Rightarrow> NavigationItem" where
  "fill_navigation host r (NavigationItem p t k c ch) =
     NavigationItem p
       (if t = None then Some (refl_name r) else t)
       (if k = None then Some (refl_kind r) else k)
       (if c = None then Some (deprecated_class r (theme_class host r)) else c)
       ch"

text \<open>Lines 659-714: one node, then its children when the list is not empty.\<close>

fun formatNavigationItem ::
  "Host \<Rightarrow> FormatNavigationCallback list \<Rightarrow> Reflection list \<Rightarrow> NavigationItem \<Rightarrow> NavigationItem" where
  "formatNavigationItem host formats reflections (NavigationItem p t k c ch) =
     (let reflection = map_option snd (find_reflection reflections p);
          item1 = (case reflection of
                     None \<Rightarrow> NavigationItem p t k c ch
                   | Some r \<Rightarrow> fill_navigation host r (NavigationItem p t k c ch));
          dummyItem = \<lparr> dummy_path = nav_path item1, dummy_text = nav_text item1,
                        dummy_kind = nav_kind item1, dummy_class = nav_class item1 \<rparr>;
          dummyItem' = fold (\<lambda>format d. format d reflection) formats dummyItem
      in NavigationItem p (dummy_text dummyItem') (dummy_kind dummyItem') (dummy_class dummyItem')
           (case ch of
              None \<Rightarrow> None
            | Some cs \<Rightarrow>
                if cs \<noteq> [] then Some (map (formatNavigationItem host formats reflections) cs)
                else Some cs))"

definition formatNavigationItems ::
  "Host \<Rightarrow> FormatNavigationCallback list \<Rightarrow> Reflection list \<Rightarrow> NavigationItem list
     \<Rightarrow> NavigationItem list" where
  "formatNavigationItems host formats reflections items =
     map (formatNavigationItem host formats reflections) items"

text \<open>The job from the alter callbacks to the tree it writes back.\<close>

definition navigationJob ::
  "Host \<Rightarrow> AlterNavigationCallback list \<Rightarrow> FormatNavigationCallback list \<Rightarrow> NavigationItem list
     \<Rightarrow> NavigationItem list" where
  "navigationJob host alters formats items =
     formatNavigationItems host formats (navigation_reflections host)
       (fold (\<lambda>alter its. alter its) alters items)"

text \<open>What the format phase must leave alone: the tree with every \<^verbatim>\<open>text\<close>, \<^verbatim>\<open>kind\<close>
  and \<^verbatim>\<open>class\<close> erased, that is the paths and the lists of children.\<close>

fun nav_frame :: "NavigationItem \<Rightarrow> NavigationItem" where
  "nav_frame (NavigationItem p t k c ch) =
     NavigationItem p None None None (map_option (map nav_frame) ch)"

section \<open>Manifest lookup (getPackageFile)\<close>

text \<open>A parsed JSON value; an object is the list of its members, each key once.\<close>

datatype JSONValue =
  JNull | JBool bool | JNumber real | JString string
  | JArray "JSONValue list" | JObject "(string \<times> JSONValue) list"

datatype JSType = TypeUndefined | TypeObject | TypeBoolean | TypeNumber | TypeString

text \<open>\<^verbatim>\<open>typeof\<close>, of a value or of \<^verbatim>\<open>undefined\<close> (\<open>None\<close>). \<^verbatim>\<open>typeof null\<close> is
  \<^verbatim>\<open>'object'\<close>, and so is the type of an array.\<close>

fun typeof :: "JSONValue option \<Rightarrow> JSType" where
  "typeof None = TypeUndefined"
| "typeof (Some JNull) = TypeObject"
| "typeof (Some (JBool b)) = TypeBoolean"
| "typeof (Some (JNumber n)) = TypeNumber"
| "typeof (Some (JString s)) = TypeString"
| "typeof (Some (JArray xs)) = TypeObject"
| "typeof (Some (JObject kvs)) = TypeObject"

text \<open>
  \<^verbatim>\<open>packageJSON.name\<close> and \<^verbatim>\<open>packageJSON.version\<close>: reading a property of \<^verbatim>\<open>null\<close> throws
  a TypeError (the outer \<open>None\<close>); an object gives the member or \<^verbatim>\<open>undefined\<close>; an array
  or a primitive has neither of the two properties.
\<close>

fun get_property :: "JSONValue \<Rightarrow> string \<Rightarrow> JSONValue option option" where
  "get_property JNull key = None"
| "get_property (JObject kvs) key = Some (map_of kvs key)"
| "get_property other key = Some None"

text \<open>Lines 836-845 inside the \<^verbatim>\<open>try\<close>: \<open>True\<close> when nothing is thrown. The conditions of
  \<^verbatim>\<open>||\<close> are evaluated from the left, and the first true one ends the evaluation.\<close>

definition manifest_accepted :: "JSONValue \<Rightarrow> bool" where
  "manifest_accepted packageJSON =
     (if typeof (Some packageJSON) \<noteq> TypeObject then False
      else
        (case get_property packageJSON ''name'' of
           None \<Rightarrow> False
         | Some nm \<Rightarrow>
             if typeof nm \<noteq> TypeString then False
             else
               (case get_property packageJSON ''version'' of
                  None \<Rightarrow> False
                | Some ver \<Rightarrow> \<not> (ver \<noteq> None \<and> typeof ver \<noteq> TypeString))))"

text \<open>
  A directory as the walk sees it: the names \<^verbatim>\<open>readdirSync\<close> lists, the text
  \<^verbatim>\<open>readFileSync(join(dir, name))\<close> returns (\<open>None\<close> when it throws) and the absolute path
  \<^verbatim>\<open>resolve(dir, name)\<close> of an entry.
\<close>

record Directory =
  dir_names :: "string list"
  dir_read :: "string \<Rightarrow> string option"
  dir_resolve :: "string \<Rightarrow> string"

text \<open>
  Modelled from the spec: \<^verbatim>\<open>escalade\<close>, the walk itself, is a dependency whose code is
  not in the repository. The spec's words: walk upward from the common root, ancestor
  after ancestor, and return the first match's absolute path, or nothing when no directory
  up to the filesystem root matches. The directories are listed from the common root
  upward; a callback result that is \<^verbatim>\<open>undefined\<close> or empty is no match.
\<close>

fun escalade :: "Directory list \<Rightarrow> (Directory \<Rightarrow> string option) \<Rightarrow> string option" where
  "escalade [] callback = None"
| "escalade (d # ds) callback =
     (case callback d of
        None \<Rightarrow> escalade ds callback
      | Some n \<Rightarrow> if n \<noteq> [] then Some (dir_resolve d n) else escalade ds callback)"

text \<open>The callback of lines 823-848; the argument \<open>json_parse\<close> is \<^verbatim>\<open>JSON.parse\<close>, with
  \<open>None\<close> where it throws. Whatever is thrown inside the \<^verbatim>\<open>try\<close> is caught and the
  callback returns \<^verbatim>\<open>undefined\<close>.\<close>

definition package_callback :: "(string \<Rightarrow> JSONValue option) \<Rightarrow> Directory \<Rightarrow> string option" where
  "package_callback json_parse d =
     (case find (\<lambda>n. n = ''package.json'') (dir_names d) of
        None \<Rightarrow> None
      | Some packageFile \<Rightarrow>
          (case dir_read d packageFile of
             None \<Rightarrow> None
           | Some txt \<Rightarrow>
               (case json_parse txt of
                  None \<Rightarrow> None
                | Some packageJSON \<Rightarrow>
                    if manifest_accepted packageJSON then Some packageFile else None)))"

text \<open>\<^verbatim>\<open>.replace(/\\/g, '/')\<close>.\<close>

definition forward_slashes :: "string \<Rightarrow> string" where
  "forward_slashes s = map (\<lambda>c. if c = bslash then CHR ''/'' else c) s"

text \<open>\<^verbatim>\<open>getPackageFile(app)\<close>, on the directories from \<^verbatim>\<open>getCommonDir(app)\<close> upward;
  \<open>None\<close> is \<^verbatim>\<open>null\<close>.\<close>

definition getPackageFile :: "(string \<Rightarrow> JSONValue option) \<Rightarrow> Directory list \<Rightarrow> string option" where
  "getPackageFile json_parse dirs =
     map_option forward_slashes (escalade dirs (package_callback json_parse))"

text \<open>
  The manifest the spec describes: a file named \<^verbatim>\<open>package.json\<close> that parses as JSON, is an
  object, has a string \<^verbatim>\<open>name\<close> and, if it has a \<^verbatim>\<open>version\<close>, a string one.
\<close>

definition valid_manifest :: "(string \<Rightarrow> JSONValue option) \<Rightarrow> Directory \<Rightarrow> bool" where
  "valid_manifest json_parse d \<longleftrightarrow>
     ''package.json'' \<in> set (dir_names d) \<and>
     (case dir_read d ''package.json'' of
        None \<Rightarrow> False
      | Some txt \<Rightarrow>
          (case json_parse txt of
             Some (JObject kvs) \<Rightarrow>
               (case map_of kvs ''name'' of Some (JString nm) \<Rightarrow> True | _ \<Rightarrow> False) \<and>
               (case map_of kvs ''version'' of
                  None \<Rightarrow> True | Some (JString ver) \<Rightarrow> True | _ \<Rightarrow> False)
           | _ \<Rightarrow> False))"


section \<open>Derived values of the fill\<close>

text \<open>
  The fill written field by field, for the proofs: a field that is set stays, an unset one
  takes the value derived from the reflection, which may itself be none.
\<close>

definition unset_then :: "'a option \<Rightarrow> 'a option \<Rightarrow> 'a option" where
  "unset_then old derived = (case old of None \<Rightarrow> derived | Some x \<Rightarrow> Some x)"

definition derived_parent :: "Reflection \<Rightarrow> string option" where
  "derived_parent r =
     (case refl_parent r of
        None \<Rightarrow> None
      | Some Project \<Rightarrow> None
      | Some (Container full) \<Rightarrow> Some full)"

definition derived_comment :: "Host \<Rightarrow> Reflection \<Rightarrow> string option" where
  "derived_comment host r =
     (if searchInComments host \<and> collect_comments r \<noteq> []
      then Some (comment_text (collect_comments r)) else None)"

definition derived_document :: "Host \<Rightarrow> Reflection \<Rightarrow> string option" where
  "derived_document host r =
     (if searchInDocuments host \<and> variant r = DocumentReflection
      then Some (join [newline] (refl_content r)) else None)"

text \<open>\<^verbatim>\<open>reflection.relevanceBoost ?? 1\<close>.\<close>

definition relevance :: "Reflection \<Rightarrow> real" where
  "relevance r = (case relevanceBoost r of None \<Rightarrow> 1 | Some x \<Rightarrow> x)"

section \<open>Concrete inputs\<close>

text \<open>The inputs of the scenarios the theorems below are evaluated on.\<close>

definition bare_true :: string where
  "bare_true = ''data:application/octet-stream;base64,H4sIAAAAAAAAAyspKk0FAI1M/P0EAAAA''"

definition empty_row :: "string \<Rightarrow> SearchItem" where
  "empty_row u =
     \<lparr> url = u, kind = None, name = None, classes = None, parent = None, comment = None,
       document = None, boost = None \<rparr>"

definition scenario_reflection :: Reflection where
  "scenario_reflection =
     \<lparr> variant = DeclarationReflection, refl_url = ''a.html'', refl_name = ''Foo'',
       refl_kind = 64, isExternal = False, isDeprecated = False, refl_parent = None,
       refl_comment = None, signatures = [], getSignature = None, setSignature = None,
       refl_content = [], relevanceBoost = None \<rparr>"

definition scenario_host :: Host where
  "scenario_host =
     \<lparr> searchInComments = False, searchInDocuments = False,
       getReflectionClasses = (\<lambda>r. ''tsd-kind-class''),
       reflections_of = [scenario_reflection],
       searchFields = (\<lambda>j. []) \<rparr>"

definition no_options :: RebuildOptions where
  "no_options = \<lparr> formatName = None, formatComment = None, formatDocument = None \<rparr>"

text \<open>A format callback that sets the boost of the row with the given url to \<open>0\<close>.\<close>

definition zero_boost :: "string \<Rightarrow> FormatSearchCallback" where
  "zero_boost u item reflection = (if url item = u then item\<lparr>boost := Some 0\<rparr> else item)"

text \<open>A format callback of the navigation that overwrites every field of what it is
  given, the path too.\<close>

definition overwrite_all :: FormatNavigationCallback where
  "overwrite_all d reflection =
     \<lparr> dummy_path = ''elsewhere.html'', dummy_text = Some ''changed'', dummy_kind = Some 1,
       dummy_class = Some ''changed'' \<rparr>"

text \<open>Two directories, the inner one first: its manifest has no \<^verbatim>\<open>name\<close>, its parent's
  has one. The texts of the files stand for their JSON.\<close>

definition scenario_parse :: "string \<Rightarrow> JSONValue option" where
  "scenario_parse txt =
     (if txt = ''inner'' then Some (JObject [(''version'', JString ''1.0.0'')])
      else if txt = ''outer'' then Some (JObject [(''name'', JString ''pkg'')])
      else None)"

definition inner_dir :: Directory where
  "inner_dir =
     \<lparr> dir_names = [''index.ts'', ''package.json''],
       dir_read = (\<lambda>n. if n = ''package.json'' then Some ''inner'' else None),
       dir_resolve = (\<lambda>n. ''/repo/sub/'' @ n) \<rparr>"

definition outer_dir :: Directory where
  "outer_dir =
     \<lparr> dir_names = [''package.json'', ''sub''],
       dir_read = (\<lambda>n. if n = ''package.json'' then Some ''outer'' else None),
       dir_resolve = (\<lambda>n. ''/repo/'' @ n) \<rparr>"

section \<open>Properties of the index codec\<close>

lemma literal_of_escapeRegExp: "literal_of (escapeRegExp s) = Some s"
  by (induction s) (auto simp: re_syntax_def bslash_def)

lemma strip_prefix_append: "strip_prefix p (p @ s) = Some s"
  by (induction p) auto

lemma strip_prefix_Some: "strip_prefix p s = Some r \<Longrightarrow> s = p @ r"
  by (induction p s rule: strip_prefix.induct) (auto split: if_splits)

lemma takeWhile_until: "q \<notin> set p \<Longrightarrow> takeWhile (\<lambda>c. c \<noteq> q) (p @ q # r) = p"
  by (induction p) auto

lemma dropWhile_until: "q \<notin> set p \<Longrightarrow> dropWhile (\<lambda>c. c \<noteq> q) (p @ q # r) = q # r"
  by (induction p) auto

lemma match_assignment_framed:
  assumes "dquote \<notin> set payload"
  shows "match_assignment (escapeRegExp n) (n @ '' = '' @ [dquote] @ payload @ [dquote] @ '';'')
           = Some payload"
proof -
  have "strip_prefix (n @ '' = '' @ [dquote]) (n @ '' = '' @ [dquote] @ payload @ [dquote] @ '';'')
      = Some (payload @ [dquote] @ '';'')"
    using strip_prefix_append [of "n @ '' = '' @ [dquote]" "payload @ [dquote] @ '';''"] by simp
  moreover have "takeWhile (\<lambda>c. c \<noteq> dquote) (payload @ [dquote] @ '';'') = payload"
    using assms takeWhile_until [of dquote payload "'';''"] by simp
  moreover have "dropWhile (\<lambda>c. c \<noteq> dquote) (payload @ [dquote] @ '';'') = [dquote, CHR '';'']"
    using assms dropWhile_until [of dquote payload "'';''"] by simp
  ultimately show ?thesis
    by (simp add: match_assignment_def literal_of_escapeRegExp Let_def)
qed

text \<open>A content without a double quote matches no assignment pattern.\<close>

lemma match_assignment_needs_quote:
  assumes "dquote \<notin> set content"
  shows "match_assignment (escapeRegExp n) content = None"
proof (cases "strip_prefix (n @ '' = '' @ [dquote]) content")
  case None
  then show ?thesis by (simp add: match_assignment_def literal_of_escapeRegExp)
next
  case (Some rest)
  then have "content = (n @ '' = '' @ [dquote]) @ rest" by (rule strip_prefix_Some)
  then have "dquote \<in> set content" by simp
  with assms show ?thesis by simp
qed

lemma strip_data_uri_payload: "strip_data_uri (data_uri @ s) = s"
  by (simp add: strip_data_uri_def strip_prefix_append)

lemma dquote_notin_data_uri: "dquote \<notin> set data_uri"
  by (simp add: data_uri_def dquote_def)

lemma stub_nibbles:
  fixes n :: nat
  assumes "n < 256"
  shows "char_of (16 * ((of_char (char_of (65 + n div 16) :: char) :: nat) - 65)
           + ((of_char (char_of (65 + n mod 16) :: char) :: nat) - 65)) = (char_of n :: char)"
proof -
  have a: "(65 + n div 16) mod 256 = 65 + n div 16" using assms by simp
  have b: "(65 + n mod 16) mod 256 = 65 + n mod 16"
    by (rule mod_less) (use mod_less_divisor [of 16 n] in linarith)
  show ?thesis by (simp only: of_char_of a b) simp
qed

lemma stub_decode_encode: "stub_decode (stub_encode s) = s"
proof (induction s)
  case Nil
  then show ?case by (simp add: stub_encode_def)
next
  case (Cons c s)
  have "(of_char c :: nat) < 256" by simp
  from stub_nibbles [OF this] Cons show ?case
    by (simp add: stub_encode_def)
qed

lemma stub_encode_letters:
  assumes "(of_char ch :: nat) < 65"
  shows "ch \<notin> set (stub_encode s)"
proof -
  have k: "ch \<noteq> char_of (65 + k)" if "k < 16" for k :: nat
  proof
    assume "ch = char_of (65 + k)"
    then have "(of_char ch :: nat) = of_char (char_of (65 + k) :: char)" by simp
    then show False using that assms by simp
  qed
  have hi: "ch \<noteq> char_of (65 + (of_char x :: nat) div 16)" for x :: char
  proof -
    have "(of_char x :: nat) < 256" by simp
    then have "(of_char x :: nat) div 16 < 16" by arith
    then show ?thesis by (rule k)
  qed
  have lo: "ch \<noteq> char_of (65 + (of_char x :: nat) mod 16)" for x :: char
    by (rule k) simp
  show ?thesis using hi lo by (auto simp: stub_encode_def)
qed

lemma stub_encode_no_dquote: "dquote \<notin> set (stub_encode s)"
  by (rule stub_encode_letters) (simp add: dquote_def)

lemma stub_encode_not_gzip_true: "stub_encode s \<noteq> gzip_true"
proof
  assume "stub_encode s = gzip_true"
  then have "CHR ''/'' \<in> set (stub_encode s)" by (simp add: gzip_true_def)
  moreover have "CHR ''/'' \<notin> set (stub_encode s)" by (rule stub_encode_letters) simp
  ultimately show False by simp
qed

lemma dquote_notin_gzip_true: "dquote \<notin> set gzip_true"
  by (simp add: gzip_true_def dquote_def)

lemma stub_codec_ok: "codec_ok stub_codec"
  by (simp add: codec_ok_def stub_codec_def stub_decode_encode stub_encode_no_dquote
      stub_encode_not_gzip_true dquote_notin_gzip_true)

lemma bare_true_written: "writeGzipJson stub_codec True None = bare_true"
  by (simp add: writeGzipJson_def stub_codec_def bare_true_def data_uri_def gzip_true_def)

lemma bare_true_no_match: "match_assignment (escapeRegExp ''window.searchData'') bare_true = None"
  by (rule match_assignment_needs_quote) (simp add: bare_true_def dquote_def)

text \<open>The payload alone, decoded without a variable name.\<close>

lemma readGzipJson_bare:
  assumes "codec_ok c"
  shows "readGzipJson c (Some (writeGzipJson c v None)) None = Inr v"
  using assms by (simp add: readGzipJson_def writeGzipJson_def strip_data_uri_payload codec_ok_def)

text \<open>
  C1. Round trip: for every value of the codec's value type, and for every variable name
  (also none, and also the empty name, which both functions treat as none), reading what
  \<^verbatim>\<open>writeGzipJson\<close> wrote under the same name gives the value back, given the contract of
  the runtime's JSON, gzip and base64 primitives.
\<close>

theorem codec_round_trip:
  assumes "codec_ok c"
  shows "readGzipJson c (Some (writeGzipJson c v jsVariable)) jsVariable = Inr v"
proof -
  let ?p = "data_uri @ toBase64 c (gzip c (stringify c v))"
  have nq: "dquote \<notin> set ?p"
    using assms dquote_notin_data_uri by (simp add: codec_ok_def)
  have dec: "(case gunzip c (fromBase64 c (strip_data_uri ?p)) of
                None \<Rightarrow> Inl FormatError
              | Some txt \<Rightarrow> (case parse c txt of None \<Rightarrow> Inl FormatError | Some v \<Rightarrow> Inr v)) = Inr v"
    using assms by (simp add: strip_data_uri_payload codec_ok_def)
  show ?thesis
  proof (cases jsVariable)
    case None
    then show ?thesis using dec by (simp add: readGzipJson_def writeGzipJson_def Let_def)
  next
    case (Some n)
    show ?thesis
    proof (cases "n = []")
      case True
      then show ?thesis using dec Some by (simp add: readGzipJson_def writeGzipJson_def Let_def)
    next
      case False
      have "replace_assignment n (n @ '' = '' @ [dquote] @ ?p @ [dquote] @ '';'') = ?p"
        using match_assignment_framed [OF nq, of n] by (simp add: replace_assignment_def)
      then show ?thesis using dec Some False
        by (simp add: readGzipJson_def writeGzipJson_def Let_def)
    qed
  qed
qed

theorem codec_round_trip_witness:
  "codec_ok stub_codec \<and>
   writeGzipJson stub_codec True (Some ''window.searchData'') =
     ''window.searchData = '' @ [dquote] @ bare_true @ [dquote] @ '';'' \<and>
   readGzipJson stub_codec
     (Some (writeGzipJson stub_codec True (Some ''window.searchData'')))
     (Some ''window.searchData'') = Inr True"
  using codec_round_trip [OF stub_codec_ok, of True "Some ''window.searchData''"] stub_codec_ok
    bare_true_written
  by (simp add: writeGzipJson_def)

text \<open>
  C2, as the code has it. When a variable name is given and the content does not match
  the assignment pattern, \<^verbatim>\<open>String.replace\<close> returns the content as it is and the decoding
  goes on: the result is the one of decoding the same content with no variable name. No
  error is raised for the mismatch itself.
\<close>

theorem readGzipJson_unmatched:
  assumes "match_assignment (escapeRegExp n) content = None"
  shows "readGzipJson c (Some content) (Some n) = readGzipJson c (Some content) None"
  using assms by (simp add: readGzipJson_def replace_assignment_def)

theorem readGzipJson_unmatched_witness:
  "match_assignment (escapeRegExp ''window.searchData'') bare_true = None \<and>
   readGzipJson stub_codec (Some bare_true) (Some ''window.searchData'') =
     readGzipJson stub_codec (Some bare_true) None"
  using readGzipJson_unmatched [OF bare_true_no_match, of stub_codec] bare_true_no_match
  by simp

text \<open>
  C2, as the claim states it, fails: the payload written with no variable name does not
  match the pattern of \<^verbatim>\<open>window.searchData\<close>, and reading it under that name returns the
  value, not a FormatError.
\<close>

theorem readGzipJson_unmatched_counterexample:
  "match_assignment (escapeRegExp ''window.searchData'') bare_true = None \<and>
   readGzipJson stub_codec (Some bare_true) (Some ''window.searchData'') = Inr True \<and>
   readGzipJson stub_codec (Some bare_true) (Some ''window.searchData'') \<noteq> Inl FormatError"
proof -
  have "readGzipJson stub_codec (Some bare_true) (Some ''window.searchData'') =
        readGzipJson stub_codec (Some (writeGzipJson stub_codec True None)) None"
    using bare_true_no_match
    by (simp add: readGzipJson_def replace_assignment_def bare_true_written)
  also have "\<dots> = Inr True"
    by (rule readGzipJson_bare) (rule stub_codec_ok)
  finally show ?thesis using bare_true_no_match by simp
qed

section \<open>Properties of the search rebuild\<close>

lemma unset_then_idem [simp]: "unset_then (unset_then old d) d = unset_then old d"
  by (simp add: unset_then_def split: option.splits)

lemma unset_then_Some [simp]: "unset_then (Some x) d = Some x"
  by (simp add: unset_then_def)

lemma unset_then_None [simp]: "unset_then None d = d"
  by (simp add: unset_then_def)

lemma fill_kind_eq: "fill_kind r row = row\<lparr>kind := unset_then (kind row) (Some (refl_kind r))\<rparr>"
  by (cases "kind row") (simp_all add: fill_kind_def)

lemma fill_name_eq: "fill_name r row = row\<lparr>name := unset_then (name row) (Some (refl_name r))\<rparr>"
  by (cases "name row") (simp_all add: fill_name_def)

lemma fill_classes_eq:
  "fill_classes host r row =
     row\<lparr>classes := unset_then (classes row) (Some (getReflectionClasses host r))\<rparr>"
  by (cases "classes row") (simp_all add: fill_classes_def)

lemma fill_parent_eq:
  "fill_parent r row = row\<lparr>parent := unset_then (parent row) (derived_parent r)\<rparr>"
  by (cases "parent row")
    (simp_all add: fill_parent_def derived_parent_def split: option.splits ParentReflection.splits)

lemma fill_comment_eq:
  "fill_comment host r row = row\<lparr>comment := unset_then (comment row) (derived_comment host r)\<rparr>"
  by (cases "comment row") (simp_all add: fill_comment_def derived_comment_def Let_def)

lemma fill_document_eq:
  "fill_document host r row =
     row\<lparr>document := unset_then (document row) (derived_document host r)\<rparr>"
  by (cases "document row") (simp_all add: fill_document_def derived_document_def)

lemma fill_fields_eq:
  "fill_fields host r row =
     row\<lparr> kind := unset_then (kind row) (Some (refl_kind r)),
          name := unset_then (name row) (Some (refl_name r)),
          classes := unset_then (classes row) (Some (getReflectionClasses host r)),
          parent := unset_then (parent row) (derived_parent r),
          comment := unset_then (comment row) (derived_comment host r),
          document := unset_then (document row) (derived_document host r) \<rparr>"
  by (simp add: fill_fields_def fill_kind_eq fill_name_eq fill_classes_eq fill_parent_eq
      fill_comment_eq fill_document_eq)

lemma fill_legacy_eq:
  "fill_legacy host r row =
     (fill_fields host r row)
       \<lparr> boost := unset_then (boost row)
            (Some (if relevance r \<le> 0 then 1 else relevance r)) \<rparr>"
  by (cases "boost row") (simp_all add: fill_legacy_def fill_fields_eq Let_def relevance_def)

lemma fill_current_eq:
  "fill_current host r row =
     (fill_fields host r row) \<lparr> boost := unset_then (boost row) (Some (relevance r)) \<rparr>"
  by (cases "boost row") (simp_all add: fill_current_def fill_fields_eq Let_def relevance_def)

text \<open>
  C7. Idempotence of the fill: on both paths, filling a row from a reflection twice gives
  the row that filling it once gives, and the fill overwrites no field that is already
  set (the url is never written).
\<close>

theorem fill_idempotent:
  "fill_legacy host r (fill_legacy host r row) = fill_legacy host r row \<and>
   fill_current host r (fill_current host r row) = fill_current host r row \<and>
   (\<forall>fill \<in> {fill_legacy host r, fill_current host r}.
      url (fill row) = url row \<and>
      (kind row \<noteq> None \<longrightarrow> kind (fill row) = kind row) \<and>
      (name row \<noteq> None \<longrightarrow> name (fill row) = name row) \<and>
      (classes row \<noteq> None \<longrightarrow> classes (fill row) = classes row) \<and>
      (parent row \<noteq> None \<longrightarrow> parent (fill row) = parent row) \<and>
      (comment row \<noteq> None \<longrightarrow> comment (fill row) = comment row) \<and>
      (document row \<noteq> None \<longrightarrow> document (fill row) = document row) \<and>
      (boost row \<noteq> None \<longrightarrow> boost (fill row) = boost row))"
proof -
  have a: "fill_legacy host r (fill_legacy host r row) = fill_legacy host r row"
    by (simp add: fill_legacy_eq fill_fields_eq)
  have b: "fill_current host r (fill_current host r row) = fill_current host r row"
    by (simp add: fill_current_eq fill_fields_eq)
  have c: "x \<noteq> None \<Longrightarrow> unset_then x d = x" for x d :: "'a option"
    by (cases x) simp_all
  show ?thesis
    using a b by (simp add: fill_legacy_eq fill_current_eq fill_fields_eq c)
qed

theorem fill_idempotent_witness:
  "fill_current scenario_host scenario_reflection
     (fill_current scenario_host scenario_reflection ((empty_row ''a.html'')\<lparr>name := Some ''Bar''\<rparr>)) =
   fill_current scenario_host scenario_reflection ((empty_row ''a.html'')\<lparr>name := Some ''Bar''\<rparr>) \<and>
   name ((empty_row ''a.html'')\<lparr>name := Some ''Bar''\<rparr>) \<noteq> None \<and>
   name (fill_current scenario_host scenario_reflection ((empty_row ''a.html'')\<lparr>name := Some ''Bar''\<rparr>))
     = Some ''Bar'' \<and>
   name (fill_legacy scenario_host scenario_reflection ((empty_row ''a.html'')\<lparr>name := Some ''Bar''\<rparr>))
     = Some ''Bar'' \<and>
   kind (fill_current scenario_host scenario_reflection ((empty_row ''a.html'')\<lparr>name := Some ''Bar''\<rparr>))
     = Some 64"
  using fill_idempotent [of scenario_host scenario_reflection "(empty_row ''a.html'')\<lparr>name := Some ''Bar''\<rparr>"]
  by (simp add: empty_row_def fill_current_eq fill_fields_eq scenario_reflection_def)

text \<open>
  C4, as the code has it. For a row whose \<^verbatim>\<open>boost\<close> is unset and a matched reflection, the
  legacy path sets the boost to the reflection's relevance boost, \<open>1\<close> when it has none,
  and to \<open>1\<close> when that value is not positive; the current path sets it to the relevance
  boost, \<open>1\<close> when it has none, and keeps a value that is not positive.
\<close>

theorem fill_boost:
  assumes "boost row = None"
  shows "boost (fill_legacy host r row) = Some (if relevance r \<le> 0 then 1 else relevance r) \<and>
         boost (fill_current host r row) = Some (relevance r)"
  using assms by (simp add: fill_legacy_eq fill_current_eq)

theorem fill_boost_witness:
  "boost (empty_row ''a.html'') = None \<and>
   boost (fill_legacy scenario_host (scenario_reflection\<lparr>relevanceBoost := Some 0\<rparr>) (empty_row ''a.html''))
     = Some 1 \<and>
   boost (fill_current scenario_host (scenario_reflection\<lparr>relevanceBoost := Some 0\<rparr>) (empty_row ''a.html''))
     = Some 0 \<and>
   boost (fill_current scenario_host scenario_reflection (empty_row ''a.html'')) = Some 1"
  using fill_boost [of "empty_row ''a.html''" scenario_host "scenario_reflection\<lparr>relevanceBoost := Some 0\<rparr>"]
    fill_boost [of "empty_row ''a.html''" scenario_host scenario_reflection]
  by (simp add: empty_row_def relevance_def scenario_reflection_def)

text \<open>
  C4, as the claim states it, fails on the current path: a reflection whose relevance
  boost is \<open>0\<close> fills the boost \<open>0\<close>, not \<open>1\<close>.
\<close>

theorem fill_boost_counterexample:
  "boost (empty_row ''a.html'') = None \<and>
   relevanceBoost (scenario_reflection\<lparr>relevanceBoost := Some 0\<rparr>) = Some 0 \<and>
   boost (fill_current scenario_host (scenario_reflection\<lparr>relevanceBoost := Some 0\<rparr>) (empty_row ''a.html''))
     = Some 0 \<and>
   boost (fill_current scenario_host (scenario_reflection\<lparr>relevanceBoost := Some 0\<rparr>) (empty_row ''a.html''))
     \<noteq> Some 1"
  by (simp add: empty_row_def fill_current_eq relevance_def scenario_reflection_def)

lemma legacy_row_builder:
  "legacy_row host opts rs i row b =
     (fst (legacy_row host opts rs i row []), b @ snd (legacy_row host opts rs i row []))"
  by (simp add: legacy_row_def Let_def)

lemma legacy_row_fst: "fst (legacy_row host opts rs i row b) = fst (legacy_row host opts rs 0 row [])"
  by (simp add: legacy_row_def Let_def)

lemma legacy_rows_eq:
  "legacy_rows host opts rs i rows b =
     (map (\<lambda>row. fst (legacy_row host opts rs 0 row [])) rows,
      b @ concat (map (\<lambda>(k, row). snd (legacy_row host opts rs k row [])) (enumerate i rows)))"
proof (induction rows arbitrary: i b)
  case Nil
  then show ?case by simp
next
  case (Cons row rows)
  show ?case
    using legacy_row_builder [of host opts rs i row b] legacy_row_fst [of host opts rs i row "[]"]
    by (simp add: Cons.IH split: prod.splits)
qed

lemma current_row_builder:
  "current_row host formats rs i item b =
     (fst (current_row host formats rs i item []), b @ snd (current_row host formats rs i item []))"
  by (simp add: current_row_def Let_def)

lemma current_row_fst:
  "fst (current_row host formats rs i item b) = fst (current_row host formats rs 0 item [])"
  by (simp add: current_row_def Let_def)

lemma current_rows_eq:
  "current_rows host formats rs i items b =
     (map (\<lambda>item. fst (current_row host formats rs 0 item [])) items,
      b @ concat (map (\<lambda>(k, item). snd (current_row host formats rs k item [])) (enumerate i items)))"
proof (induction items arbitrary: i b)
  case Nil
  then show ?case by simp
next
  case (Cons item items)
  show ?case
    using current_row_builder [of host formats rs i item b]
      current_row_fst [of host formats rs i item "[]"]
    by (simp add: Cons.IH split: prod.splits)
qed

lemma concat_map_if:
  "concat (map (\<lambda>(k, x). if P k x then [f k x] else []) ys) =
   map (\<lambda>(k, x). f k x) (filter (\<lambda>(k, x). P k x) ys)"
  by (induction ys) auto

lemma current_row_snd:
  "snd (current_row host formats rs i item []) =
     (if indexed (current_item host formats rs item)
      then [index_doc host rs i (url item) (current_item host formats rs item)
              (Some (case boost (current_item host formats rs item) of None \<Rightarrow> 1 | Some b \<Rightarrow> b))]
      else [])"
  by (simp add: current_row_def Let_def)

lemma current_row_item:
  "fst (current_row host formats rs i item b) =
     strip_row ((current_item host formats rs item)
        \<lparr>name := Some (case name (current_item host formats rs item) of None \<Rightarrow> [] | Some n \<Rightarrow> n)\<rparr>)"
  by (simp add: current_row_def Let_def)

lemma searchJob_rows:
  "fst (searchJob host alters formats rows) =
     map (\<lambda>item. strip_row ((current_item host formats (search_reflections host) item)
        \<lparr>name := Some (case name (current_item host formats (search_reflections host) item) of
                         None \<Rightarrow> [] | Some n \<Rightarrow> n)\<rparr>))
       (altered_rows alters rows)"
  by (simp add: searchJob_def current_rows_eq current_row_item)

lemma searchJob_docs:
  "snd (searchJob host alters formats rows) =
     map (\<lambda>(i, item).
            index_doc host (search_reflections host) i (url item)
              (current_item host formats (search_reflections host) item)
              (Some (case boost (current_item host formats (search_reflections host) item) of
                       None \<Rightarrow> 1 | Some b \<Rightarrow> b)))
       (filter (\<lambda>(i, item). indexed (current_item host formats (search_reflections host) item))
          (enumerate 0 (altered_rows alters rows)))"
  by (simp add: searchJob_def current_rows_eq current_row_snd concat_map_if)

lemma legacy_row_snd:
  "snd (legacy_row host opts rs i row []) =
     (if url row \<noteq> []
      then [index_doc host rs i (url row) (legacy_item host opts rs row)
              (boost (legacy_item host opts rs row))]
      else [])"
  by (simp add: legacy_row_def Let_def)

lemma rebuildSearch_docs:
  "snd (rebuildSearch host opts rows) =
     map (\<lambda>(i, row).
            index_doc host (search_reflections host) i (url row)
              (legacy_item host opts (search_reflections host) row)
              (boost (legacy_item host opts (search_reflections host) row)))
       (filter (\<lambda>(i, row). url row \<noteq> []) (enumerate 0 rows))"
  by (simp add: rebuildSearch_def legacy_rows_eq legacy_row_snd concat_map_if)

lemma rebuildSearch_rows:
  "fst (rebuildSearch host opts rows) =
     map (\<lambda>row. if url row = [] then row
                 else strip_row (legacy_item host opts (search_reflections host) row)) rows"
  by (simp add: rebuildSearch_def legacy_rows_eq legacy_row_def Let_def)

lemma doc_id_index_doc: "doc_id (index_doc host rs i u row b) = i"
  by (simp add: index_doc_def Let_def)

text \<open>An extra field called \<^verbatim>\<open>name\<close> replaces the row's name in the document; the id
  stays the position.\<close>

lemma index_doc_spread:
  "index_doc (scenario_host\<lparr>searchFields := (\<lambda>j. [(''name'', ''Extra''), (''id'', ''x'')])\<rparr>)
     [scenario_reflection] 3 ''a.html'' ((empty_row ''a.html'')\<lparr>name := Some ''Foo''\<rparr>) (Some 1) =
   \<lparr> doc_id = 3, doc_name = Some ''Extra'', doc_comment = None, doc_document = None,
     doc_fields = [], doc_boost = Some 1 \<rparr>"
  by (simp add: index_doc_def Let_def spread_over_def find_reflection_def scenario_reflection_def
      scenario_host_def empty_row_def)

lemma ids_of_enumerate:
  assumes "\<And>k x. g (f k x) = k"
  shows "g ` set (map (\<lambda>(k, x). f k x) (filter (\<lambda>(k, x). P x) (enumerate 0 xs))) =
           {i. i < length xs \<and> P (xs ! i)}"
proof (rule set_eqI)
  fix i
  have "i \<in> g ` set (map (\<lambda>(k, x). f k x) (filter (\<lambda>(k, x). P x) (enumerate 0 xs)))
        \<longleftrightarrow> (\<exists>k x. (k, x) \<in> set (enumerate 0 xs) \<and> P x \<and> i = k)"
    using assms by (auto simp: image_iff)
  also have "\<dots> \<longleftrightarrow> i < length xs \<and> P (xs ! i)"
    by (auto simp: in_set_enumerate_eq)
  finally show "i \<in> g ` set (map (\<lambda>(k, x). f k x) (filter (\<lambda>(k, x). P x) (enumerate 0 xs)))
        \<longleftrightarrow> i \<in> {i. i < length xs \<and> P (xs ! i)}" by simp
qed

lemma searchJob_doc_ids:
  "doc_id ` set (snd (searchJob host alters formats rows)) =
     {i. i < length (altered_rows alters rows) \<and>
         indexed (current_item host formats (search_reflections host) (altered_rows alters rows ! i))}"
  unfolding searchJob_docs by (rule ids_of_enumerate) (auto simp: doc_id_index_doc)

lemma rebuildSearch_doc_ids:
  "doc_id ` set (snd (rebuildSearch host opts rows)) =
     {i. i < length rows \<and> url (rows ! i) \<noteq> []}"
  unfolding rebuildSearch_docs by (rule ids_of_enumerate) (auto simp: doc_id_index_doc)


lemma enumerate_nth: "enumerate 0 xs = map (\<lambda>i. (i, xs ! i)) [0..<length xs]"
  by (rule nth_equalityI) (simp_all add: nth_enumerate_eq)

lemma positions_of_enumerate:
  "map fst (filter (\<lambda>(i, x). P x) (enumerate 0 xs)) = filter (\<lambda>i. P (xs ! i)) [0..<length xs]"
  by (simp add: enumerate_nth filter_map comp_def)

lemma searchJob_length:
  "length (fst (searchJob host alters formats rows)) = length (altered_rows alters rows)"
  by (simp add: searchJob_rows)

lemma searchJob_stripped:
  assumes "item \<in> set (fst (searchJob host alters formats rows))"
  shows "comment item = None \<and> document item = None \<and> boost item = None"
  using assms by (auto simp: searchJob_rows strip_row_def)

lemma rebuildSearch_stripped:
  assumes "i < length rows" and "url (rows ! i) \<noteq> []"
  shows "comment (fst (rebuildSearch host opts rows) ! i) = None \<and>
         document (fst (rebuildSearch host opts rows) ! i) = None \<and>
         boost (fst (rebuildSearch host opts rows) ! i) = None"
  using assms by (simp add: rebuildSearch_rows strip_row_def)

text \<open>
  C3. The legacy path leaves a row without url as it is: the \<^verbatim>\<open>continue\<close> of line 222
  comes before the three \<^verbatim>\<open>delete\<close> statements, so \<^verbatim>\<open>comment\<close>, \<^verbatim>\<open>document\<close> and
  \<^verbatim>\<open>boost\<close> of such a row are still there in the rows \<^verbatim>\<open>rebuildSearch\<close> returns, for
  every host and every option.
\<close>

theorem rebuildSearch_keeps_row_without_url:
  "rebuildSearch host opts
     [(empty_row [])\<lparr>comment := Some ''internal'', document := Some ''body'', boost := Some 2\<rparr>] =
   ([(empty_row [])\<lparr>comment := Some ''internal'', document := Some ''body'', boost := Some 2\<rparr>], []) \<and>
   comment (hd (fst (rebuildSearch host opts
     [(empty_row [])\<lparr>comment := Some ''internal'', document := Some ''body'', boost := Some 2\<rparr>])))
     = Some ''internal''"
  by (simp add: rebuildSearch_def legacy_row_def empty_row_def)

text \<open>
  C5. On the current path, a row whose boost after the format phase is a number that is
  not positive adds no document with its position as id; the row list written back has
  the length of the list after the alter callbacks, and the row stays at its position,
  as the format phase left it but for the name set and the three fields deleted by lines
  520-523, so without its boost. On the legacy path the rows that add a document are
  exactly the rows with a url, whatever their boost.
\<close>

theorem exclusion_by_boost:
  assumes "i < length (altered_rows alters rows)"
    and "boost (current_item host formats (search_reflections host) (altered_rows alters rows ! i)) = Some b"
    and "b \<le> 0"
  shows "i \<notin> doc_id ` set (snd (searchJob host alters formats rows)) \<and>
         length (fst (searchJob host alters formats rows)) = length (altered_rows alters rows) \<and>
         fst (searchJob host alters formats rows) ! i =
           strip_row
             ((current_item host formats (search_reflections host) (altered_rows alters rows ! i))
                \<lparr>name := Some (case name (current_item host formats (search_reflections host)
                                             (altered_rows alters rows ! i)) of
                                  None \<Rightarrow> [] | Some n \<Rightarrow> n)\<rparr>) \<and>
         boost (fst (searchJob host alters formats rows) ! i) = None \<and>
         doc_id ` set (snd (rebuildSearch host opts rows')) =
           {j. j < length rows' \<and> url (rows' ! j) \<noteq> []}"
  using assms
  by (simp add: searchJob_doc_ids rebuildSearch_doc_ids searchJob_rows indexed_def strip_row_def)

lemma scenario_reflections: "search_reflections scenario_host = [scenario_reflection]"
  by (simp add: search_reflections_def scenario_host_def scenario_reflection_def)

lemma scenario_item_a:
  "current_item scenario_host [zero_boost ''b.html''] [scenario_reflection] (empty_row ''a.html'') =
     \<lparr> url = ''a.html'', kind = Some 64, name = Some ''Foo'', classes = Some ''tsd-kind-class'',
       parent = None, comment = None, document = None, boost = Some 1 \<rparr>"
  by (simp add: current_item_def find_reflection_def scenario_reflection_def empty_row_def
      fill_current_eq fill_fields_eq relevance_def derived_parent_def derived_comment_def
      derived_document_def scenario_host_def zero_boost_def)

lemma scenario_item_b:
  "current_item scenario_host [zero_boost ''b.html''] [scenario_reflection] (empty_row ''b.html'') =
     (empty_row ''b.html'')\<lparr>boost := Some 0\<rparr>"
  by (simp add: current_item_def find_reflection_def scenario_reflection_def empty_row_def
      zero_boost_def)

theorem exclusion_by_boost_witness:
  "(1::nat) < length (altered_rows [] [empty_row ''a.html'', empty_row ''b.html'']) \<and>
   boost (current_item scenario_host [zero_boost ''b.html''] (search_reflections scenario_host)
            (altered_rows [] [empty_row ''a.html'', empty_row ''b.html''] ! 1)) = Some 0 \<and>
   1 \<notin> doc_id ` set (snd (searchJob scenario_host [] [zero_boost ''b.html'']
                             [empty_row ''a.html'', empty_row ''b.html''])) \<and>
   length (fst (searchJob scenario_host [] [zero_boost ''b.html'']
                  [empty_row ''a.html'', empty_row ''b.html''])) = 2 \<and>
   boost (fst (searchJob scenario_host [] [zero_boost ''b.html'']
                 [empty_row ''a.html'', empty_row ''b.html'']) ! 1) = None \<and>
   doc_id ` set (snd (rebuildSearch scenario_host no_options
                        [(empty_row ''a.html'')\<lparr>boost := Some 0\<rparr>])) = {0}"
proof -
  have h1: "(1::nat) < length (altered_rows [] [empty_row ''a.html'', empty_row ''b.html''])"
    by (simp add: altered_rows_def)
  have h2: "boost (current_item scenario_host [zero_boost ''b.html''] (search_reflections scenario_host)
            (altered_rows [] [empty_row ''a.html'', empty_row ''b.html''] ! 1)) = Some 0"
    by (simp add: altered_rows_def scenario_reflections scenario_item_b)
  have h3: "(0::real) \<le> 0" by simp
  have u: "url ((empty_row ''a.html'')\<lparr>boost := Some 0\<rparr>) \<noteq> []"
    by (simp add: empty_row_def)
  have s: "{j. j < length [(empty_row ''a.html'')\<lparr>boost := Some 0\<rparr>] \<and>
              url ([(empty_row ''a.html'')\<lparr>boost := Some 0\<rparr>] ! j) \<noteq> []} = {0}"
    using u by auto
  show ?thesis
    using exclusion_by_boost [OF h1 h2 h3, of no_options "[(empty_row ''a.html'')\<lparr>boost := Some 0\<rparr>]"]
      h1 h2 s
    by (simp add: altered_rows_def strip_row_def)
qed

text \<open>
  C6. The documents of the index are, in order, the documents of the rows that pass the
  test of line 505, each with the zero-based position of its row in the row list as id:
  a row that is skipped keeps its position. The same holds on the legacy path for the rows
  with a url.
\<close>

theorem index_ids_are_positions:
  "snd (searchJob host alters formats rows) =
     map (\<lambda>(i, item).
            index_doc host (search_reflections host) i (url item)
              (current_item host formats (search_reflections host) item)
              (Some (case boost (current_item host formats (search_reflections host) item) of
                       None \<Rightarrow> 1 | Some b \<Rightarrow> b)))
       (filter (\<lambda>(i, item). indexed (current_item host formats (search_reflections host) item))
          (enumerate 0 (altered_rows alters rows))) \<and>
   map doc_id (snd (searchJob host alters formats rows)) =
     filter (\<lambda>i. indexed (current_item host formats (search_reflections host)
                            (altered_rows alters rows ! i)))
       [0..<length (fst (searchJob host alters formats rows))] \<and>
   map doc_id (snd (rebuildSearch host opts rows')) =
     filter (\<lambda>i. url (rows' ! i) \<noteq> []) [0..<length (fst (rebuildSearch host opts rows'))]"
proof -
  have a: "map doc_id (map (\<lambda>(i, x). index_doc host rs i (u x) (f x) (g x)) ys) = map fst ys"
    for rs u f g and ys :: "(nat \<times> SearchItem) list"
    by (induction ys) (auto simp: doc_id_index_doc)
  have "map doc_id (snd (searchJob host alters formats rows)) =
     filter (\<lambda>i. indexed (current_item host formats (search_reflections host)
                            (altered_rows alters rows ! i)))
       [0..<length (altered_rows alters rows)]"
    unfolding searchJob_docs a by (rule positions_of_enumerate)
  moreover have "map doc_id (snd (rebuildSearch host opts rows')) =
     filter (\<lambda>i. url (rows' ! i) \<noteq> []) [0..<length rows']"
    unfolding rebuildSearch_docs a by (rule positions_of_enumerate)
  ultimately show ?thesis
    by (simp add: searchJob_docs searchJob_length rebuildSearch_rows)
qed

section \<open>Properties of the navigation job\<close>

lemma nav_frame_fill: "nav_frame (fill_navigation host r item) = nav_frame item"
  by (cases item) simp

text \<open>
  C9. For a node whose \<^verbatim>\<open>class\<close> is unset and a matched reflection that is deprecated, the
  filled class is \<^verbatim>\<open>deprecated\<close>, followed by a space and the derived class when that one is
  not empty: \<^verbatim>\<open>deprecated tsd-kind-class\<close> for the derived class \<^verbatim>\<open>tsd-kind-class\<close>, and
  \<^verbatim>\<open>deprecated\<close> alone for a reflection that is neither a declaration nor a document (the
  empty string when such a reflection is not deprecated). With no format callback this is
  the class of the node the job writes.
\<close>

theorem deprecated_navigation_class:
  assumes "nav_class item = None" and "isDeprecated r"
  shows "nav_class (fill_navigation host r item) =
           Some (if theme_class host r = [] then ''deprecated''
                 else ''deprecated '' @ theme_class host r) \<and>
         (variant r = DeclarationReflection \<and> getReflectionClasses host r = ''tsd-kind-class''
            \<longrightarrow> nav_class (fill_navigation host r item) = Some ''deprecated tsd-kind-class'') \<and>
         (variant r \<noteq> DeclarationReflection \<and> variant r \<noteq> DocumentReflection
            \<longrightarrow> nav_class (fill_navigation host r item) = Some ''deprecated'' \<and>
                nav_class (fill_navigation host (r\<lparr>isDeprecated := False\<rparr>) item) = Some []) \<and>
         (find_reflection reflections (nav_path item) = Some (j, r)
            \<longrightarrow> nav_class (formatNavigationItem host [] reflections item) =
                  nav_class (fill_navigation host r item))"
  using assms
  by (cases item) (simp add: deprecated_class_def theme_class_def)

theorem deprecated_navigation_class_witness:
  "nav_class (NavigationItem ''a.html'' None None None None) = None \<and>
   isDeprecated (scenario_reflection\<lparr>isDeprecated := True\<rparr>) \<and>
   find_reflection [scenario_reflection\<lparr>isDeprecated := True\<rparr>] ''a.html''
     = Some (0, scenario_reflection\<lparr>isDeprecated := True\<rparr>) \<and>
   nav_class (fill_navigation scenario_host (scenario_reflection\<lparr>isDeprecated := True\<rparr>)
                (NavigationItem ''a.html'' None None None None))
     = Some ''deprecated tsd-kind-class'' \<and>
   nav_class (formatNavigationItem scenario_host [] [scenario_reflection\<lparr>isDeprecated := True\<rparr>]
                (NavigationItem ''a.html'' None None None None))
     = Some ''deprecated tsd-kind-class'' \<and>
   nav_class (fill_navigation scenario_host
                (scenario_reflection\<lparr>isDeprecated := True, variant := OtherReflection\<rparr>)
                (NavigationItem ''a.html'' None None None None))
     = Some ''deprecated''"
proof -
  have f: "find_reflection [scenario_reflection\<lparr>isDeprecated := True\<rparr>] ''a.html''
     = Some (0, scenario_reflection\<lparr>isDeprecated := True\<rparr>)"
    by (simp add: find_reflection_def scenario_reflection_def)
  have c: "getReflectionClasses scenario_host (scenario_reflection\<lparr>isDeprecated := True\<rparr>)
     = ''tsd-kind-class''"
    by (simp add: scenario_host_def)
  have v: "variant (scenario_reflection\<lparr>isDeprecated := True\<rparr>) = DeclarationReflection"
    by (simp add: scenario_reflection_def)
  have o: "variant (scenario_reflection\<lparr>isDeprecated := True, variant := OtherReflection\<rparr>)
      \<noteq> DeclarationReflection \<and>
     variant (scenario_reflection\<lparr>isDeprecated := True, variant := OtherReflection\<rparr>)
      \<noteq> DocumentReflection"
    by simp
  show ?thesis
    using deprecated_navigation_class
        [of "NavigationItem ''a.html'' None None None None"
            "scenario_reflection\<lparr>isDeprecated := True\<rparr>" scenario_host
            "[scenario_reflection\<lparr>isDeprecated := True\<rparr>]" 0]
      deprecated_navigation_class
        [of "NavigationItem ''a.html'' None None None None"
            "scenario_reflection\<lparr>isDeprecated := True, variant := OtherReflection\<rparr>" scenario_host]
      f c v o
    by (simp add: theme_class_def)
qed


text \<open>A format callback that overwrites all it is given, the path too, changes neither
  the path nor the children of the node.\<close>

lemma formatNavigationItem_example:
  "formatNavigationItem scenario_host [overwrite_all] []
     (NavigationItem ''a.html'' (Some ''A'') (Some 2) None
        (Some [NavigationItem ''b.html'' None None None None])) =
   NavigationItem ''a.html'' (Some ''changed'') (Some 1) (Some ''changed'')
     (Some [NavigationItem ''b.html'' (Some ''changed'') (Some 1) (Some ''changed'') None])"
  by (simp add: find_reflection_def overwrite_all_def)


section \<open>Properties of the manifest lookup\<close>

lemma typeof_string: "typeof x = TypeString \<longleftrightarrow> (\<exists>s. x = Some (JString s))"
  by (cases x rule: typeof.cases) simp_all

lemma typeof_object:
  "typeof (Some j) = TypeObject \<longleftrightarrow> j = JNull \<or> (\<exists>xs. j = JArray xs) \<or> (\<exists>kvs. j = JObject kvs)"
  by (cases j) simp_all

lemma manifest_accepted_object:
  "manifest_accepted (JObject kvs) \<longleftrightarrow>
     (case map_of kvs ''name'' of Some (JString nm) \<Rightarrow> True | _ \<Rightarrow> False) \<and>
     (case map_of kvs ''version'' of None \<Rightarrow> True | Some (JString ver) \<Rightarrow> True | _ \<Rightarrow> False)"
  by (auto simp: manifest_accepted_def typeof_string split: option.splits JSONValue.splits)

lemma manifest_accepted_other:
  "(\<And>kvs. j \<noteq> JObject kvs) \<Longrightarrow> \<not> manifest_accepted j"
  by (cases j) (auto simp: manifest_accepted_def)

lemma find_package_json:
  "find (\<lambda>n. n = ''package.json'') names =
     (if ''package.json'' \<in> set names then Some ''package.json'' else None)"
  by (induction names) auto

lemma package_callback_eq:
  "package_callback json_parse d =
     (if valid_manifest json_parse d then Some ''package.json'' else None)"
proof (cases "''package.json'' \<in> set (dir_names d)")
  case False
  then show ?thesis by (simp add: package_callback_def valid_manifest_def find_package_json)
next
  case listed: True
  show ?thesis
  proof (cases "dir_read d ''package.json''")
    case None
    then show ?thesis using listed
      by (simp add: package_callback_def valid_manifest_def find_package_json)
  next
    case rd: (Some body)
    show ?thesis
    proof (cases "json_parse body")
      case None
      then show ?thesis using listed rd
        by (simp add: package_callback_def valid_manifest_def find_package_json)
    next
      case parsed: (Some j)
      show ?thesis
      proof (cases "\<exists>kvs. j = JObject kvs")
        case True
        then obtain kvs where "j = JObject kvs" by blast
        then show ?thesis using listed rd parsed
          by (simp add: package_callback_def valid_manifest_def find_package_json
              manifest_accepted_object)
      next
        case False
        then have "\<not> manifest_accepted j" by (intro manifest_accepted_other) blast
        then show ?thesis using False listed rd parsed
          by (cases j) (simp_all add: package_callback_def valid_manifest_def find_package_json)
      qed
    qed
  qed
qed

lemma escalade_find:
  assumes "n \<noteq> []"
  shows "escalade dirs (\<lambda>d. if P d then Some n else None) =
           map_option (\<lambda>d. dir_resolve d n) (find P dirs)"
  using assms by (induction dirs) auto

text \<open>
  C8. \<^verbatim>\<open>getPackageFile\<close> returns the path of \<^verbatim>\<open>package.json\<close> in the first directory, from
  the common root upward, that holds a valid manifest: a directory whose manifest is
  missing, unreadable, not JSON, not an object, without a string \<^verbatim>\<open>name\<close> or with a
  \<^verbatim>\<open>version\<close> that is not a string is passed over; \<open>None\<close> (\<^verbatim>\<open>null\<close>) when there is none.
\<close>

theorem getPackageFile_first_valid:
  "getPackageFile json_parse dirs =
     (case find (valid_manifest json_parse) dirs of
        None \<Rightarrow> None
      | Some d \<Rightarrow> Some (forward_slashes (dir_resolve d ''package.json'')))"
proof -
  have "package_callback json_parse =
          (\<lambda>d. if valid_manifest json_parse d then Some ''package.json'' else None)"
    by (rule ext) (rule package_callback_eq)
  then show ?thesis
    by (simp add: getPackageFile_def escalade_find split: option.splits)
qed

lemma getPackageFile_scenario:
  "getPackageFile scenario_parse [inner_dir, outer_dir] = Some ''/repo/package.json''"
  by (simp add: getPackageFile_def package_callback_def scenario_parse_def inner_dir_def
      outer_dir_def manifest_accepted_def forward_slashes_def bslash_def)

end
